theory Spec2Isabelle
  imports Main "HOL-Library.Word"
begin

section \<open>The Threema Gateway connection (threema/gateway/__init__.py)\<close>

text \<open>
  A shallow embedding of the class \<open>Connection\<close>. Python objects that flow through the
  class untouched are values of \<open>pyval\<close>; a Python \<open>dict\<close> with string keys is an
  association list in insertion order (the order Python keeps); an exception is a value
  of \<open>error\<close> on the left of a sum. The HTTP session of aiohttp is a parameter
  \<open>tr\<close> (what the server answers to a request sent through a session), and every
  operation returns, next to its result, the list of effects it had on the network, in
  the order they happened.
\<close>

subsection \<open>Values, dictionaries, errors\<close>

type_synonym bytes = "8 word list"

datatype pyval =
    PyNone
  | Str string
  | Bytes bytes
  | Dict "(string \<times> pyval) list"

type_synonym dict = "(string \<times> pyval) list"

text \<open>\<open>d.setdefault(k, v)\<close>: a key that is present keeps its value, whatever it is; an
  absent key is added at the end.\<close>

definition setdefault :: "(string \<times> 'v) list \<Rightarrow> string \<Rightarrow> 'v \<Rightarrow> (string \<times> 'v) list" where
  "setdefault d k v = (case map_of d k of None \<Rightarrow> d @ [(k, v)] | Some _ \<Rightarrow> d)"

text \<open>\<open>d[k] = v\<close>: replaces the value in place, or adds the key at the end.\<close>

fun setitem :: "(string \<times> 'v) list \<Rightarrow> string \<Rightarrow> 'v \<Rightarrow> (string \<times> 'v) list" where
  "setitem [] k v = [(k, v)]"
| "setitem (p # ps) k v = (if fst p = k then (k, v) # ps else p # setitem ps k v)"

text \<open>The server error families, one class of \<open>threema.gateway.exception\<close> each.\<close>

datatype family =
    KeyServerError
  | IDServerError
  | ReceptionCapabilitiesServerError
  | CreditsServerError
  | MessageServerError
  | BlobServerError

text \<open>
  The exceptions the class raises or lets through. \<open>IDError\<close> carries the message
  template and the arguments of its \<open>format\<close> call (the text of a Python \<open>set\<close> is not
  determined by its elements). \<open>GatewayServerError f s\<close> is the member of the family
  \<open>f\<close> that the status \<open>s\<close> selects. \<open>ClientError\<close> stands for the errors of the
  transport itself (aiohttp), which the class lets through.
\<close>

datatype error =
    GatewayKeyError string
  | IDError string "string list"
  | ReceptionCapabilitiesError string
  | GatewayServerError family int
  | KeyError
  | ValueError
  | AttributeError
  | OSError
  | ClientError string

subsection \<open>Strings\<close>

text \<open>The characters \<open>str.isspace\<close> accepts, among the code points below 256.\<close>

definition isspace :: "char \<Rightarrow> bool" where
  "isspace c = (c \<in> set [CHR 0x09, CHR 0x0A, CHR 0x0B, CHR 0x0C, CHR 0x0D,
     CHR 0x1C, CHR 0x1D, CHR 0x1E, CHR 0x1F, CHR 0x20, CHR 0x85, CHR 0xA0])"

text \<open>\<open>s.strip()\<close>\<close>

definition strip :: "string \<Rightarrow> string" where
  "strip s = rev (dropWhile isspace (rev (dropWhile isspace s)))"

text \<open>\<open>file.readline()\<close> on a file just opened in text mode: the first line with its
  newline, or the whole text when it has none.\<close>

fun readline :: "string \<Rightarrow> string" where
  "readline [] = []"
| "readline (c # cs) = (if c = CHR 0x0A then [c] else c # readline cs)"

text \<open>\<open>s.split(sep)\<close> for a separator of one character.\<close>

fun split_str :: "string \<Rightarrow> char \<Rightarrow> string list" where
  "split_str [] sep = [[]]"
| "split_str (c # cs) sep =
     (if c = sep then [] # split_str cs sep
      else (case split_str cs sep of w # ws \<Rightarrow> (c # w) # ws | [] \<Rightarrow> [[c]]))"

text \<open>\<open>template.format(arg)\<close> for a template with at most one field \<open>{}\<close> and no
  escaped brace, as every template of \<open>urls\<close> is.\<close>

fun format_str :: "string \<Rightarrow> string \<Rightarrow> string" where
  "format_str (c # d # rest) a =
     (if c = CHR ''{'' \<and> d = CHR ''}'' then a @ rest else c # format_str (d # rest) a)"
| "format_str s a = s"

subsection \<open>ReceptionCapability\<close>

datatype ReceptionCapability = cap_text | cap_image | cap_video | cap_audio | cap_file

text \<open>The value of each enumerant.\<close>

fun cap_value :: "ReceptionCapability \<Rightarrow> string" where
  "cap_value cap_text = ''text''"
| "cap_value cap_image = ''image''"
| "cap_value cap_video = ''video''"
| "cap_value cap_audio = ''audio''"
| "cap_value cap_file = ''file''"

text \<open>\<open>ReceptionCapability(s)\<close>: the enumerant with the value \<open>s\<close>, or \<open>ValueError\<close>.\<close>

definition ReceptionCapability_of :: "string \<Rightarrow> error + ReceptionCapability" where
  "ReceptionCapability_of s =
     (if s = ''text'' then Inr cap_text
      else if s = ''image'' then Inr cap_image
      else if s = ''video'' then Inr cap_video
      else if s = ''audio'' then Inr cap_audio
      else if s = ''file'' then Inr cap_file
      else Inl ValueError)"

subsection \<open>The connection and its constructor\<close>

text \<open>\<open>aiohttp.TCPConnector(fingerprint=...)\<close> and \<open>aiohttp.ClientSession(connector=...)\<close>:
  the session is what it was built with.\<close>

record TCPConnector =
  connector_fingerprint :: "bytes option"

record ClientSession =
  connector :: TCPConnector

text \<open>The constructor of \<open>aiohttp.TCPConnector\<close>, in the versions of aiohttp that this
  code is written for: a fingerprint must have the length of an md5, a sha1 or a sha256
  digest, or the constructor raises \<open>ValueError\<close> (fingerprint has invalid length).\<close>

definition new_TCPConnector :: "bytes option \<Rightarrow> error + TCPConnector" where
  "new_TCPConnector fp =
     (case fp of
        None \<Rightarrow> Inr \<lparr>connector_fingerprint = None\<rparr>
      | Some digest \<Rightarrow>
          if length digest \<in> set [16, 20, 32] then Inr \<lparr>connector_fingerprint = Some digest\<rparr>
          else Inl ValueError)"

text \<open>The fields \<open>_session\<close>, \<open>_key\<close>, \<open>_key_file\<close>, \<open>id\<close> and \<open>secret\<close> of a
  \<open>Connection\<close>; \<open>'k\<close> is the type of decoded key objects.\<close>

record 'k Connection =
  conn_session :: ClientSession
  conn_key :: "'k option"
  conn_key_file :: "string option"
  conn_id :: pyval
  conn_secret :: pyval

text \<open>The class attribute \<open>Connection.fingerprint\<close>.\<close>

definition fingerprint :: bytes where
  "fingerprint = [0x6D, 0x7F, 0xA3, 0x1D, 0x80, 0xDC, 0x56, 0xF9,
                  0xC1, 0xED, 0x17, 0x98, 0x2A, 0xD6, 0x01, 0x7F]"

text \<open>What a caller can assign to the property \<open>key\<close>: \<open>None\<close>, a \<open>str\<close>, or any other
  object.\<close>

datatype 'k keyarg = KeyNone | KeyStr string | KeyObj 'k

text \<open>The getter of the property \<open>key\<close>.\<close>

definition get_key :: "'k Connection \<Rightarrow> error + 'k" where
  "get_key self =
     (case conn_key self of
        None \<Rightarrow> Inl (GatewayKeyError ''Sender's private key not specified'')
      | Some k \<Rightarrow> Inr k)"

text \<open>The setter of the property \<open>key\<close>. \<open>Key.decode(key, Key.Type.private)\<close> lives in
  \<open>threema.gateway.key\<close>; it is the parameter \<open>decode\<close>, which returns a key object
  or raises.\<close>

definition set_key ::
  "(string \<Rightarrow> error + 'k) \<Rightarrow> 'k Connection \<Rightarrow> 'k keyarg \<Rightarrow> error + 'k Connection" where
  "set_key decode self key =
     (case key of
        KeyStr s \<Rightarrow>
          (case decode s of
             Inl e \<Rightarrow> Inl e
           | Inr k \<Rightarrow> Inr (self\<lparr>conn_key := Some k\<rparr>))
      | KeyObj k \<Rightarrow> Inr (self\<lparr>conn_key := Some k\<rparr>)
      | KeyNone \<Rightarrow> Inr (self\<lparr>conn_key := None\<rparr>))"

text \<open>The getter and the setter of the property \<open>key_file\<close>. The file system \<open>fs\<close>
  gives the text of each file that \<open>open\<close> can read, as text mode presents it (every
  line end is the newline character); \<open>open\<close> raises \<open>OSError\<close> on any other path.\<close>

definition get_key_file :: "'k Connection \<Rightarrow> string option" where
  "get_key_file self = conn_key_file self"

definition set_key_file ::
  "(string \<Rightarrow> error + 'k) \<Rightarrow> (string \<rightharpoonup> string) \<Rightarrow> 'k Connection \<Rightarrow> string option
     \<Rightarrow> error + 'k Connection" where
  "set_key_file decode fs self key_file =
     (case key_file of
        None \<Rightarrow> Inr (self\<lparr>conn_key_file := None\<rparr>)
      | Some path \<Rightarrow>
          (case fs path of
             None \<Rightarrow> Inl OSError
           | Some content \<Rightarrow>
               (case set_key decode self (KeyStr (strip (readline content))) of
                  Inl e \<Rightarrow> Inl e
                | Inr self1 \<Rightarrow> Inr (self1\<lparr>conn_key_file := Some path\<rparr>))))"

text \<open>\<open>Connection.__init__(id, secret, key, key_file, fingerprint, verify_fingerprint)\<close>\<close>

definition init ::
  "(string \<Rightarrow> error + 'k) \<Rightarrow> (string \<rightharpoonup> string) \<Rightarrow> pyval \<Rightarrow> pyval \<Rightarrow> 'k keyarg
     \<Rightarrow> string option \<Rightarrow> bytes option \<Rightarrow> bool \<Rightarrow> error + 'k Connection" where
  "init decode fs ident secret key key_file fp verify_fingerprint =
     (let fp1 = (if fp = None \<and> verify_fingerprint then Some fingerprint else fp)
      in case new_TCPConnector fp1 of
           Inl e \<Rightarrow> Inl e
         | Inr conn \<Rightarrow>
             (let session = \<lparr>connector = conn\<rparr>;
                  self = \<lparr>conn_session = session, conn_key = None, conn_key_file = None,
                          conn_id = ident, conn_secret = secret\<rparr>
              in case set_key decode self key of
                   Inl e \<Rightarrow> Inl e
                 | Inr self1 \<Rightarrow> set_key_file decode fs self1 key_file))"

subsection \<open>Requests, responses and effects\<close>

datatype http_method = GET | POST

text \<open>A call \<open>session.get(url, **kwargs)\<close> or \<open>session.post(url, **kwargs)\<close>.\<close>

record request =
  http_method :: http_method
  url :: string
  kwargs :: dict

text \<open>An \<open>aiohttp.ClientResponse\<close>: its status and the text of its body.\<close>

record response =
  status :: int
  body_text :: string

text \<open>The effects of an operation: a request sent through a session, the body of the
  response read (\<open>response.text()\<close>), the response released (\<open>response.release()\<close>).\<close>

datatype event = Request ClientSession request | ReadText | Release

type_synonym transport = "ClientSession \<Rightarrow> request \<Rightarrow> error + response"

type_synonym 'a io = "(error + 'a) \<times> event list"

text \<open>Sequencing: an exception ends the operation, and the effects so far stay.\<close>

definition bind_io :: "'a io \<Rightarrow> ('a \<Rightarrow> 'b io) \<Rightarrow> 'b io" where
  "bind_io m f =
     (case m of
        (Inl e, t) \<Rightarrow> (Inl e, t)
      | (Inr x, t) \<Rightarrow> (case f x of (r, t') \<Rightarrow> (r, t @ t')))"

definition pure_io :: "error + 'a \<Rightarrow> 'a io" where
  "pure_io r = (r, [])"

definition session_get :: "transport \<Rightarrow> ClientSession \<Rightarrow> string \<Rightarrow> dict \<Rightarrow> response io" where
  "session_get tr session u kw =
     (let rq = \<lparr>http_method = GET, url = u, kwargs = kw\<rparr>
      in (tr session rq, [Request session rq]))"

definition session_post :: "transport \<Rightarrow> ClientSession \<Rightarrow> string \<Rightarrow> dict \<Rightarrow> response io" where
  "session_post tr session u kw =
     (let rq = \<lparr>http_method = POST, url = u, kwargs = kw\<rparr>
      in (tr session rq, [Request session rq]))"

definition read_text :: "response \<Rightarrow> string io" where
  "read_text r = (Inr (body_text r), [ReadText])"

definition release :: "response \<Rightarrow> unit io" where
  "release r = (Inr (), [Release])"

text \<open>\<open>d[k]\<close>\<close>

definition getitem :: "(string \<times> 'v) list \<Rightarrow> string \<Rightarrow> error + 'v" where
  "getitem d k = (case map_of d k of None \<Rightarrow> Inl KeyError | Some v \<Rightarrow> Inr v)"

text \<open>\<open>d.popitem()\<close>: the pair added last, and \<open>KeyError\<close> on an empty dictionary.\<close>

definition popitem :: "(string \<times> 'v) list \<Rightarrow> error + (string \<times> 'v)" where
  "popitem d = (if d = [] then Inl KeyError else Inr (last d))"

text \<open>
  Modelled from the spec: \<open>raise_server_error\<close> of \<open>threema.gateway.util\<close>, which
  is not among the sources. The spec (4.4): given a non-success response and an
  endpoint's error family, a member of that family, selected by the status code, is
  always raised, and the response is released before the error is raised.
\<close>

definition raise_server_error :: "response \<Rightarrow> family \<Rightarrow> 'a io" where
  "raise_server_error r fam = (Inl (GatewayServerError fam (status r)), [Release])"

subsection \<open>The endpoints\<close>

definition urls :: "(string \<times> string) list" where
  "urls =
     [(''get_public_key'', ''https://msgapi.threema.ch/pubkeys/{}''),
      (''get_id_by_phone'', ''https://msgapi.threema.ch/lookup/phone/{}''),
      (''get_id_by_phone_hash'', ''https://msgapi.threema.ch/lookup/phone_hash/{}''),
      (''get_id_by_email'', ''https://msgapi.threema.ch/lookup/email/{}''),
      (''get_id_by_email_hash'', ''https://msgapi.threema.ch/lookup/email_hash/{}''),
      (''get_reception_capabilities'', ''https://msgapi.threema.ch/capabilities/{}''),
      (''get_credits'', ''https://msgapi.threema.ch/credits''),
      (''send_simple'', ''https://msgapi.threema.ch/send_simple''),
      (''send_e2e'', ''https://msgapi.threema.ch/send_e2e''),
      (''upload_blob'', ''https://msgapi.threema.ch/upload_blob''),
      (''download_blob'', ''https://msgapi.threema.ch/blobs/{}'')]"

text \<open>\<open>Connection._get(url, **kwargs)\<close>. A \<open>params\<close> that is not a dictionary has no
  \<open>setdefault\<close>.\<close>

definition priv_get :: "transport \<Rightarrow> 'k Connection \<Rightarrow> string \<Rightarrow> dict \<Rightarrow> response io" where
  "priv_get tr self u kw =
     (let kw1 = setdefault kw ''params'' (Dict [])
      in case map_of kw1 ''params'' of
           Some (Dict params) \<Rightarrow>
             (let params1 = setdefault params ''from'' (conn_id self);
                  params2 = setdefault params1 ''secret'' (conn_secret self)
              in session_get tr (conn_session self) u (setitem kw1 ''params'' (Dict params2)))
         | _ \<Rightarrow> (Inl AttributeError, []))"

text \<open>\<open>Connection._send(url, data)\<close>\<close>

definition priv_send :: "transport \<Rightarrow> 'k Connection \<Rightarrow> string \<Rightarrow> dict \<Rightarrow> string io" where
  "priv_send tr self u data =
     (let data1 = setdefault data ''from'' (conn_id self);
          data2 = setdefault data1 ''secret'' (conn_secret self)
      in bind_io (session_post tr (conn_session self) u [(''data'', Dict data2)])
           (\<lambda>response.
              if status response = 200 then read_text response
              else raise_server_error response MessageServerError))"

text \<open>\<open>Connection._upload(url, data)\<close>\<close>

definition priv_upload :: "transport \<Rightarrow> 'k Connection \<Rightarrow> string \<Rightarrow> bytes \<Rightarrow> string io" where
  "priv_upload tr self u data =
     (let params = [(''from'', conn_id self), (''secret'', conn_secret self)];
          files = [(''blob'', Bytes data)]
      in bind_io
           (session_post tr (conn_session self) u
              [(''params'', Dict params), (''data'', Dict files)])
           (\<lambda>response.
              if status response = 200 then read_text response
              else raise_server_error response BlobServerError))"

text \<open>\<open>Connection.get_public_key(id)\<close>. \<open>libnacl.encode.hex_decode\<close> followed by
  \<open>libnacl.public.PublicKey\<close> is the parameter \<open>public_key\<close>.\<close>

definition get_public_key ::
  "transport \<Rightarrow> (string \<Rightarrow> error + 'pk) \<Rightarrow> 'k Connection \<Rightarrow> string \<Rightarrow> 'pk io" where
  "get_public_key tr public_key self ident =
     bind_io (pure_io (getitem urls ''get_public_key'')) (\<lambda>template.
     bind_io (priv_get tr self (format_str template ident) []) (\<lambda>response.
       if status response = 200 then
         bind_io (read_text response) (\<lambda>txt. pure_io (public_key txt))
       else raise_server_error response KeyServerError))"

text \<open>\<open>Connection.get_id(**mode)\<close>: \<open>mode\<close> is the dictionary of the keyword arguments.\<close>

definition modes :: "(string \<times> string) list" where
  "modes =
     [(''phone'', ''get_id_by_phone''),
      (''phone_hash'', ''get_id_by_phone_hash''),
      (''email'', ''get_id_by_email''),
      (''email_hash'', ''get_id_by_email_hash'')]"

definition get_id :: "transport \<Rightarrow> 'k Connection \<Rightarrow> (string \<times> string) list \<Rightarrow> string io" where
  "get_id tr self mode =
     (if length (remdups (filter (\<lambda>m. m \<notin> set (map fst modes)) (map fst mode))) > 0 then
        (Inl (IDError ''Unknown mode selected: {}'' (remdups (map fst mode))), [])
      else if length mode > 1 then
        (Inl (IDError ''Use (only) one of the possible modes to get a Threema ID'' []), [])
      else
        bind_io (pure_io (popitem mode)) (\<lambda>(m, v).
        bind_io (pure_io (getitem modes m)) (\<lambda>name.
        bind_io (pure_io (getitem urls name)) (\<lambda>template.
        bind_io (priv_get tr self (format_str template v) []) (\<lambda>response.
          if status response = 200 then read_text response
          else raise_server_error response IDServerError)))))"

text \<open>The set comprehension of \<open>get_reception_capabilities\<close>: the tokens are converted
  in order, and the first that is no capability raises.\<close>

fun capabilities :: "string list \<Rightarrow> error + ReceptionCapability set" where
  "capabilities [] = Inr {}"
| "capabilities (capability # rest) =
     (case ReceptionCapability_of (strip capability) of
        Inl e \<Rightarrow> Inl e
      | Inr c \<Rightarrow>
          (case capabilities rest of
             Inl e \<Rightarrow> Inl e
           | Inr cs \<Rightarrow> Inr (insert c cs)))"

text \<open>\<open>Connection.get_reception_capabilities(id)\<close>\<close>

definition get_reception_capabilities ::
  "transport \<Rightarrow> 'k Connection \<Rightarrow> string \<Rightarrow> ReceptionCapability set io" where
  "get_reception_capabilities tr self ident =
     bind_io (pure_io (getitem urls ''get_reception_capabilities'')) (\<lambda>template.
     bind_io (priv_get tr self (format_str template ident) []) (\<lambda>response.
       if status response = 200 then
         (case bind_io (read_text response)
                 (\<lambda>txt. pure_io (capabilities (split_str txt CHR '','')))
          of
            (Inl ValueError, t) \<Rightarrow>
              (case release response of
                 (_, t') \<Rightarrow>
                   (Inl (ReceptionCapabilitiesError ''Invalid reception capability''), t @ t'))
          | other \<Rightarrow> other)
       else raise_server_error response ReceptionCapabilitiesServerError))"

text \<open>\<open>Connection.get_credits()\<close>. The builtin \<open>int\<close> is the parameter \<open>py_int\<close>.\<close>

definition get_credits ::
  "transport \<Rightarrow> (string \<Rightarrow> error + int) \<Rightarrow> 'k Connection \<Rightarrow> int io" where
  "get_credits tr py_int self =
     bind_io (pure_io (getitem urls ''get_credits'')) (\<lambda>u.
     bind_io (priv_get tr self u []) (\<lambda>response.
       if status response = 200 then
         bind_io (read_text response) (\<lambda>txt. pure_io (py_int txt))
       else raise_server_error response CreditsServerError))"

text \<open>\<open>Connection.send_simple(**data)\<close> and \<open>Connection.send_e2e(**data)\<close>\<close>

definition send_simple :: "transport \<Rightarrow> 'k Connection \<Rightarrow> dict \<Rightarrow> string io" where
  "send_simple tr self data =
     bind_io (pure_io (getitem urls ''send_simple'')) (\<lambda>u. priv_send tr self u data)"

definition send_e2e :: "transport \<Rightarrow> 'k Connection \<Rightarrow> dict \<Rightarrow> string io" where
  "send_e2e tr self data =
     bind_io (pure_io (getitem urls ''send_e2e'')) (\<lambda>u. priv_send tr self u data)"

text \<open>\<open>Connection.upload(data)\<close> and \<open>Connection.download(id)\<close>\<close>

definition upload :: "transport \<Rightarrow> 'k Connection \<Rightarrow> bytes \<Rightarrow> string io" where
  "upload tr self data =
     bind_io (pure_io (getitem urls ''upload_blob'')) (\<lambda>u. priv_upload tr self u data)"

definition download :: "transport \<Rightarrow> 'k Connection \<Rightarrow> string \<Rightarrow> response io" where
  "download tr self ident =
     bind_io (pure_io (getitem urls ''download_blob'')) (\<lambda>template.
     bind_io (priv_get tr self (format_str template ident) []) (\<lambda>response.
       if status response = 200 then pure_io (Inr response)
       else raise_server_error response BlobServerError))"

subsection \<open>Notions of the statements\<close>

text \<open>The request that \<open>_get(url)\<close> sends when its caller gives no keyword argument.\<close>

abbreviation get_request :: "'k Connection \<Rightarrow> string \<Rightarrow> request" where
  "get_request self u \<equiv>
     \<lparr>http_method = GET, url = u,
      kwargs = [(''params'', Dict [(''from'', conn_id self), (''secret'', conn_secret self)])]\<rparr>"

text \<open>What a caller's dictionary \<open>given\<close> and the dictionary \<open>sent\<close> have to do with
  each other when \<open>from\<close> and \<open>secret\<close> are defaults: \<open>sent\<close> has both keys, each
  with the caller's value if the caller gave one and with the connection's otherwise,
  and every entry of \<open>given\<close> is in \<open>sent\<close> unchanged.\<close>

abbreviation default_if_absent :: "'k Connection \<Rightarrow> dict \<Rightarrow> dict \<Rightarrow> bool" where
  "default_if_absent self given sent \<equiv>
     map_of sent ''from'' = Some (case map_of given ''from'' of None \<Rightarrow> conn_id self | Some v \<Rightarrow> v)
     \<and> map_of sent ''secret'' =
         Some (case map_of given ''secret'' of None \<Rightarrow> conn_secret self | Some v \<Rightarrow> v)
     \<and> (\<forall>k v. map_of given k = Some v \<longrightarrow> map_of sent k = Some v)"

text \<open>A body that is a list of tokens separated by commas (\<open>','.join(tokens)\<close>).\<close>

fun comma_separated :: "string list \<Rightarrow> string" where
  "comma_separated [] = []"
| "comma_separated [t] = t"
| "comma_separated (t # ts) = t @ CHR '','' # comma_separated ts"

subsection \<open>Concrete inputs\<close>

text \<open>The inputs at which the theorems below are instantiated: a key decoder that
  knows two encodings, a file system with one key file, and a connection that holds
  the key \<open>7\<close>.\<close>

definition example_decode :: "string \<Rightarrow> error + nat" where
  "example_decode s =
     (if s = ''private:2a'' then Inr 42
      else if s = ''private:07'' then Inr 7
      else Inl (GatewayKeyError ''Invalid key format''))"

definition example_fs :: "string \<rightharpoonup> string" where
  "example_fs = [''key.txt'' \<mapsto> ''  private:2a '' @ [CHR 0x0A] @ ''second line'']"

definition example_conn :: "nat Connection" where
  "example_conn =
     \<lparr>conn_session = \<lparr>connector = \<lparr>connector_fingerprint = None\<rparr>\<rparr>,
      conn_key = Some 7, conn_key_file = None,
      conn_id = Str ''*MYID123'', conn_secret = Str ''s3cret''\<rparr>"


text \<open>The server that gives the answer \<open>r\<close> to every request, and five answers.\<close>

definition answer :: "response \<Rightarrow> transport" where
  "answer r s rq = Inr r"

definition not_found :: response where
  "not_found = \<lparr>status = 404, body_text = []\<rparr>"

definition capabilities_ok :: response where
  "capabilities_ok = \<lparr>status = 200, body_text = ''text,image,file''\<rparr>"

definition capabilities_padded :: response where
  "capabilities_padded = \<lparr>status = 200, body_text = ''text, image ,text''\<rparr>"

definition capabilities_bogus :: response where
  "capabilities_bogus = \<lparr>status = 200, body_text = ''text,bogus''\<rparr>"

definition blob_stored :: response where
  "blob_stored = \<lparr>status = 200, body_text = ''0123456789abcdef''\<rparr>"

section \<open>The key provider\<close>

lemma init_run:
  "init decode fs ident secret key key_file fp vf =
     (case new_TCPConnector (if fp = None \<and> vf then Some fingerprint else fp) of
        Inl e \<Rightarrow> Inl e
      | Inr conn \<Rightarrow>
          (case set_key decode
                  \<lparr>conn_session = \<lparr>connector = conn\<rparr>, conn_key = None, conn_key_file = None,
                     conn_id = ident, conn_secret = secret\<rparr> key of
             Inl e \<Rightarrow> Inl e
           | Inr self1 \<Rightarrow> set_key_file decode fs self1 key_file))"
  unfolding init_def Let_def by (rule refl)

lemma new_TCPConnector_fallback:
  "new_TCPConnector (Some fingerprint) = Inr \<lparr>connector_fingerprint = Some fingerprint\<rparr>"
  by (simp add: new_TCPConnector_def fingerprint_def)

lemma new_TCPConnector_accepts:
  "\<forall>d. fp = Some d \<longrightarrow> length d \<in> {16, 20, 32} \<Longrightarrow>
     new_TCPConnector (if fp = None \<and> vf then Some fingerprint else fp)
       = Inr \<lparr>connector_fingerprint = (if fp = None \<and> vf then Some fingerprint else fp)\<rparr>"
  by (cases fp) (auto simp: new_TCPConnector_fallback, auto simp: new_TCPConnector_def)


lemma new_TCPConnector_Inr:
  "new_TCPConnector fp = Inr conn \<Longrightarrow> conn = \<lparr>connector_fingerprint = fp\<rparr>"
  by (auto simp: new_TCPConnector_def split: option.splits if_splits)

text \<open>
  C3. On a connection that stores no private key, reading \<open>key\<close> raises
  \<open>GatewayKeyError\<close> and returns nothing; this is the case right after a construction
  without key and key file (which succeeds whenever the transport accepts the
  fingerprint), and after \<open>None\<close> was assigned to \<open>key\<close>. After a key object \<open>k\<close>
  that is neither \<open>None\<close> nor a \<open>str\<close> was assigned to \<open>key\<close>, reading \<open>key\<close>
  returns \<open>k\<close>.
\<close>

theorem key_unset_raises_and_value_round_trip:
  "(conn_key self = None \<longrightarrow>
      get_key self = Inl (GatewayKeyError ''Sender's private key not specified''))
   \<and> (\<forall>c. init decode fs ident secret KeyNone None fp vf = Inr c \<longrightarrow>
          get_key c = Inl (GatewayKeyError ''Sender's private key not specified''))
   \<and> ((\<forall>d. fp = Some d \<longrightarrow> length d \<in> {16, 20, 32}) \<longrightarrow>
        (\<exists>c. init decode fs ident secret KeyNone None fp vf = Inr c
           \<and> get_key c = Inl (GatewayKeyError ''Sender's private key not specified'')))
   \<and> (\<exists>c. set_key decode self KeyNone = Inr c
          \<and> get_key c = Inl (GatewayKeyError ''Sender's private key not specified''))
   \<and> (\<exists>c. set_key decode self (KeyObj k) = Inr c \<and> get_key c = Inr k)"
proof (intro conjI impI allI)
  show "get_key self = Inl (GatewayKeyError ''Sender's private key not specified'')"
    if "conn_key self = None"
    using that by (simp add: get_key_def)
  show "get_key c = Inl (GatewayKeyError ''Sender's private key not specified'')"
    if "init decode fs ident secret KeyNone None fp vf = Inr c" for c
    using that
    by (auto simp: init_run set_key_def set_key_file_def get_key_def split: sum.splits)
  show "\<exists>c. init decode fs ident secret KeyNone None fp vf = Inr c
           \<and> get_key c = Inl (GatewayKeyError ''Sender's private key not specified'')"
    if "\<forall>d. fp = Some d \<longrightarrow> length d \<in> {16, 20, 32}"
    using new_TCPConnector_accepts [OF that, of vf]
    by (simp add: init_run set_key_def set_key_file_def get_key_def)
  show "\<exists>c. set_key decode self KeyNone = Inr c
          \<and> get_key c = Inl (GatewayKeyError ''Sender's private key not specified'')"
    by (simp add: set_key_def get_key_def)
  show "\<exists>c. set_key decode self (KeyObj k) = Inr c \<and> get_key c = Inr k"
    by (simp add: set_key_def get_key_def)
qed

theorem key_unset_raises_and_value_round_trip_witness:
  "conn_key (example_conn\<lparr>conn_key := None\<rparr>) = None
   \<and> get_key (example_conn\<lparr>conn_key := None\<rparr>)
       = Inl (GatewayKeyError ''Sender's private key not specified'')
   \<and> init example_decode example_fs (Str ''*MYID123'') (Str ''s3cret'') KeyNone None None False
       = Inr (example_conn\<lparr>conn_key := None\<rparr>)
   \<and> set_key example_decode example_conn (KeyObj 5) = Inr (example_conn\<lparr>conn_key := Some 5\<rparr>)
   \<and> get_key (example_conn\<lparr>conn_key := Some 5\<rparr>) = Inr 5"
proof -
  let ?c = "example_conn\<lparr>conn_key := None\<rparr>"
  have u: "conn_key ?c = None" by simp
  have i: "init example_decode example_fs (Str ''*MYID123'') (Str ''s3cret'') KeyNone None None False
       = Inr ?c"
    by (simp add: init_run new_TCPConnector_def set_key_def set_key_file_def example_conn_def)
  have f: "\<forall>d. (None :: bytes option) = Some d \<longrightarrow> length d \<in> {16, 20, 32}" by simp
  note t = key_unset_raises_and_value_round_trip [where self = ?c and decode = example_decode
      and fs = example_fs and ident = "Str ''*MYID123''" and secret = "Str ''s3cret''"
      and fp = None and vf = False and k = 5]
  from t [THEN conjunct1, THEN mp, OF u]
  have g: "get_key ?c = Inl (GatewayKeyError ''Sender's private key not specified'')" .
  from t [THEN conjunct2, THEN conjunct2, THEN conjunct1, THEN mp, OF f] i
  have "get_key ?c = Inl (GatewayKeyError ''Sender's private key not specified'')" by auto
  with u g i show ?thesis by (simp add: set_key_def get_key_def)
qed

text \<open>
  C6, as the claim states it, fails: assigning \<open>None\<close> to \<open>key_file\<close> does not clear
  the key. A connection constructed with the key \<open>7\<close> still returns \<open>7\<close> after
  \<open>key_file = None\<close>.
\<close>

theorem key_file_None_keeps_key_counterexample:
  "init example_decode example_fs (Str ''*MYID123'') (Str ''s3cret'') (KeyObj 7) None None False
     = Inr example_conn
   \<and> set_key_file example_decode example_fs example_conn None = Inr example_conn
   \<and> get_key example_conn = Inr 7"
  by (simp add: init_run new_TCPConnector_def set_key_def set_key_file_def get_key_def
        example_conn_def)

text \<open>
  C6, amended. Assigning \<open>None\<close> to \<open>key\<close> clears the key: no private key is stored
  afterwards and reading \<open>key\<close> raises \<open>GatewayKeyError\<close>. Assigning \<open>None\<close> to
  \<open>key_file\<close> succeeds, clears the recorded path only and leaves the stored key as it
  was, so that reading \<open>key\<close> afterwards gives what it gave before.
\<close>

theorem clearing_the_key:
  "set_key decode self KeyNone = Inr (self\<lparr>conn_key := None\<rparr>)
   \<and> get_key (self\<lparr>conn_key := None\<rparr>)
       = Inl (GatewayKeyError ''Sender's private key not specified'')
   \<and> set_key_file decode fs self None = Inr (self\<lparr>conn_key_file := None\<rparr>)
   \<and> conn_key (self\<lparr>conn_key_file := None\<rparr>) = conn_key self
   \<and> get_key (self\<lparr>conn_key_file := None\<rparr>) = get_key self"
  by (simp add: set_key_def set_key_file_def get_key_def)

lemma init_Some_path:
  "init decode fs ident secret key (Some path) fp vf = Inr c \<Longrightarrow>
   \<exists>content k. fs path = Some content \<and> decode (strip (readline content)) = Inr k
      \<and> conn_key c = Some k \<and> conn_key_file c = Some path"
  by (auto simp: init_run set_key_def set_key_file_def
           split: keyarg.splits sum.splits option.splits)

lemma init_then_key_file:
  "init decode fs ident secret key (Some path) fp vf
     = (case init decode fs ident secret key None fp vf of
          Inl e \<Rightarrow> Inl e
        | Inr c \<Rightarrow> set_key_file decode fs c (Some path))"
  by (auto simp: init_run set_key_def set_key_file_def
           split: keyarg.splits sum.splits option.splits)

lemma init_direct_key:
  assumes "init decode fs ident secret key None fp vf = Inr c"
  shows "key = KeyObj k1 \<Longrightarrow> get_key c = Inr k1"
    and "key = KeyStr s \<Longrightarrow> decode s = Inr k0 \<Longrightarrow> get_key c = Inr k0"
  using assms
  by (auto simp: init_run set_key_def set_key_file_def get_key_def split: sum.splits)

text \<open>
  C9. The constructor assigns the direct key first and the key file second:
  constructing with both is constructing with the direct key alone (which stores that
  key) and then assigning \<open>key_file\<close>. So a connection constructed with a key file
  holds the key decoded from the stripped first line of that file, whatever the direct
  key argument was; a direct key that is a \<open>str\<close> and does not decode ends the
  construction with its error, whatever the file holds; and the construction succeeds
  with the key of the file whenever the transport accepts the fingerprint, the direct
  key, if it is a \<open>str\<close>, decodes, the file can be read and its first line decodes.
\<close>

theorem key_file_takes_precedence:
  "init decode fs ident secret key (Some path) fp vf
     = (case init decode fs ident secret key None fp vf of
          Inl e \<Rightarrow> Inl e
        | Inr c0 \<Rightarrow> set_key_file decode fs c0 (Some path))
   \<and> (init decode fs ident secret key None fp vf = Inr c1 \<longrightarrow>
        (key = KeyObj k1 \<longrightarrow> get_key c1 = Inr k1)
        \<and> (key = KeyStr s1 \<and> decode s1 = Inr k1 \<longrightarrow> get_key c1 = Inr k1))
   \<and> (init decode fs ident secret key (Some path) fp vf = Inr c \<longrightarrow>
      (\<exists>content k. fs path = Some content \<and> decode (strip (readline content)) = Inr k
         \<and> conn_key c = Some k \<and> get_key c = Inr k \<and> get_key_file c = Some path))
   \<and> ((\<forall>d. fp = Some d \<longrightarrow> length d \<in> {16, 20, 32})
        \<and> key = KeyStr s \<and> decode s = Inl e \<longrightarrow>
      init decode fs ident secret key (Some path) fp vf = Inl e)
   \<and> ((\<forall>d. fp = Some d \<longrightarrow> length d \<in> {16, 20, 32})
        \<and> fs path = Some content \<and> decode (strip (readline content)) = Inr k
        \<and> (\<forall>s. key = KeyStr s \<longrightarrow> (\<exists>k0. decode s = Inr k0)) \<longrightarrow>
      (\<exists>c'. init decode fs ident secret key (Some path) fp vf = Inr c'
         \<and> conn_key c' = Some k \<and> get_key c' = Inr k \<and> get_key_file c' = Some path))"
proof (intro conjI impI)
  show "init decode fs ident secret key (Some path) fp vf
     = (case init decode fs ident secret key None fp vf of
          Inl e \<Rightarrow> Inl e
        | Inr c0 \<Rightarrow> set_key_file decode fs c0 (Some path))"
    by (rule init_then_key_file)
next
  assume "init decode fs ident secret key None fp vf = Inr c1" and "key = KeyObj k1"
  then show "get_key c1 = Inr k1" by (rule init_direct_key)
next
  assume "init decode fs ident secret key None fp vf = Inr c1"
    and "key = KeyStr s1 \<and> decode s1 = Inr k1"
  then show "get_key c1 = Inr k1" by (auto dest: init_direct_key(2))
next
  assume "init decode fs ident secret key (Some path) fp vf = Inr c"
  from init_Some_path [OF this]
  show "\<exists>content k. fs path = Some content \<and> decode (strip (readline content)) = Inr k
         \<and> conn_key c = Some k \<and> get_key c = Inr k \<and> get_key_file c = Some path"
    by (auto simp: get_key_def get_key_file_def)
next
  assume a: "(\<forall>d. fp = Some d \<longrightarrow> length d \<in> {16, 20, 32}) \<and> key = KeyStr s \<and> decode s = Inl e"
  then have "\<forall>d. fp = Some d \<longrightarrow> length d \<in> {16, 20, 32}" by blast
  from new_TCPConnector_accepts [OF this, of vf] a
  show "init decode fs ident secret key (Some path) fp vf = Inl e"
    by (simp add: init_run set_key_def)
next
  assume a: "(\<forall>d. fp = Some d \<longrightarrow> length d \<in> {16, 20, 32})
        \<and> fs path = Some content \<and> decode (strip (readline content)) = Inr k
        \<and> (\<forall>s. key = KeyStr s \<longrightarrow> (\<exists>k0. decode s = Inr k0))"
  then have "\<forall>d. fp = Some d \<longrightarrow> length d \<in> {16, 20, 32}" by blast
  note conn = new_TCPConnector_accepts [OF this, of vf]
  show "\<exists>c'. init decode fs ident secret key (Some path) fp vf = Inr c'
         \<and> conn_key c' = Some k \<and> get_key c' = Inr k \<and> get_key_file c' = Some path"
  proof (cases key)
    case KeyNone
    with a conn show ?thesis
      by (simp add: init_run set_key_def set_key_file_def get_key_def get_key_file_def)
  next
    case (KeyStr s)
    with a obtain k0 where "decode s = Inr k0" by blast
    with a conn KeyStr show ?thesis
      by (simp add: init_run set_key_def set_key_file_def get_key_def get_key_file_def)
  next
    case (KeyObj k1)
    with a conn show ?thesis
      by (simp add: init_run set_key_def set_key_file_def get_key_def get_key_file_def)
  qed
qed

theorem key_file_takes_precedence_witness:
  "example_fs ''key.txt'' = Some (''  private:2a '' @ [CHR 0x0A] @ ''second line'')
   \<and> example_decode (strip (readline (''  private:2a '' @ [CHR 0x0A] @ ''second line''))) = Inr 42
   \<and> example_decode ''private:07'' = Inr 7
   \<and> example_decode ''private'' = Inl (GatewayKeyError ''Invalid key format'')
   \<and> init example_decode example_fs (Str ''*MYID123'') (Str ''s3cret'') (KeyStr ''private:07'')
       None None False
     = Inr example_conn
   \<and> get_key example_conn = Inr 7
   \<and> init example_decode example_fs (Str ''*MYID123'') (Str ''s3cret'') (KeyStr ''private:07'')
       (Some ''key.txt'') None False
     = Inr (example_conn\<lparr>conn_key := Some 42, conn_key_file := Some ''key.txt''\<rparr>)
   \<and> get_key (example_conn\<lparr>conn_key := Some 42, conn_key_file := Some ''key.txt''\<rparr>) = Inr 42
   \<and> init example_decode example_fs (Str ''*MYID123'') (Str ''s3cret'') (KeyStr ''private'')
       (Some ''key.txt'') None False
     = Inl (GatewayKeyError ''Invalid key format'')"
proof -
  let ?c = "example_conn\<lparr>conn_key := Some 42, conn_key_file := Some ''key.txt''\<rparr>"
  let ?content = "''  private:2a '' @ [CHR 0x0A] @ ''second line''"
  let ?bad = "GatewayKeyError ''Invalid key format''"
  have f: "example_fs ''key.txt'' = Some ?content"
    by (simp add: example_fs_def)
  have d: "example_decode (strip (readline ?content)) = Inr 42"
    by (simp add: example_decode_def strip_def isspace_def)
  have k: "example_decode ''private:07'' = Inr 7"
    and b: "example_decode ''private'' = Inl ?bad"
    by (simp_all add: example_decode_def)
  have fp: "\<forall>d. (None :: bytes option) = Some d \<longrightarrow> length d \<in> {16, 20, 32}" by simp
  have i0: "init example_decode example_fs (Str ''*MYID123'') (Str ''s3cret'')
       (KeyStr ''private:07'') None None False = Inr example_conn"
    by (simp add: init_run new_TCPConnector_def set_key_def set_key_file_def
          example_decode_def example_conn_def)
  note t = key_file_takes_precedence [where decode = example_decode and fs = example_fs
      and ident = "Str ''*MYID123''" and secret = "Str ''s3cret''" and path = "''key.txt''"
      and fp = None and vf = False]
  from t [where key = "KeyStr ''private:07''" and ?c1.0 = example_conn and ?s1.0 = "''private:07''"
      and ?k1.0 = 7, THEN conjunct2, THEN conjunct1, THEN mp, OF i0] k
  have g0: "get_key example_conn = Inr 7" by simp
  have h: "(\<forall>d. (None :: bytes option) = Some d \<longrightarrow> length d \<in> {16, 20, 32})
      \<and> example_fs ''key.txt'' = Some ?content
      \<and> example_decode (strip (readline ?content)) = Inr 42
      \<and> (\<forall>s. KeyStr ''private:07'' = KeyStr s \<longrightarrow> (\<exists>k0. example_decode s = Inr k0))"
    using f d k by simp
  from t [where key = "KeyStr ''private:07''" and content = ?content and k = 42,
      THEN conjunct2, THEN conjunct2, THEN conjunct2, THEN conjunct2, THEN mp, OF h]
  obtain c' where i: "init example_decode example_fs (Str ''*MYID123'') (Str ''s3cret'')
         (KeyStr ''private:07'') (Some ''key.txt'') None False = Inr c'"
    and g: "get_key c' = Inr 42"
    by blast
  from t [where key = "KeyStr ''private:07''", THEN conjunct1] i0 i
  have "set_key_file example_decode example_fs example_conn (Some ''key.txt'') = Inr c'"
    by simp
  then have c': "c' = ?c"
    by (simp add: set_key_file_def set_key_def example_fs_def example_decode_def
          strip_def isspace_def)
  have h2: "(\<forall>d. (None :: bytes option) = Some d \<longrightarrow> length d \<in> {16, 20, 32})
      \<and> KeyStr ''private'' = KeyStr ''private'' \<and> example_decode ''private'' = Inl ?bad"
    using b by simp
  from t [where key = "KeyStr ''private''" and s = "''private''" and e = ?bad,
      THEN conjunct2, THEN conjunct2, THEN conjunct2, THEN conjunct1, THEN mp, OF h2]
  have r: "init example_decode example_fs (Str ''*MYID123'') (Str ''s3cret'')
       (KeyStr ''private'') (Some ''key.txt'') None False = Inl ?bad" .
  from f d k b i0 g0 i g c' r show ?thesis by simp
qed

section \<open>TLS pinning\<close>

lemma init_session:
  "init decode fs ident secret key key_file fp vf = Inr c \<Longrightarrow>
     conn_session c
       = \<lparr>connector = \<lparr>connector_fingerprint =
            (if fp = None \<and> vf then Some fingerprint else fp)\<rparr>\<rparr>"
  by (auto simp: init_run set_key_def set_key_file_def
           split: keyarg.splits sum.splits option.splits if_splits
           dest: new_TCPConnector_Inr)



section \<open>The request dispatcher\<close>

subsection \<open>What each endpoint does\<close>

lemma bind_pure_Inr: "bind_io (pure_io (Inr x)) f = f x"
  by (simp add: bind_io_def pure_io_def split: prod.splits)

lemma priv_get_plain:
  "priv_get tr self u [] =
     (tr (conn_session self) (get_request self u),
      [Request (conn_session self) (get_request self u)])"
  by (simp add: priv_get_def setdefault_def session_get_def Let_def)

lemma get_then:
  "bind_io (priv_get tr self u []) f =
     (case tr (conn_session self) (get_request self u) of
        Inl e \<Rightarrow> (Inl e, [Request (conn_session self) (get_request self u)])
      | Inr r \<Rightarrow> (fst (f r), Request (conn_session self) (get_request self u) # snd (f r)))"
  by (simp add: priv_get_plain bind_io_def split: sum.splits prod.splits)

lemma urls_lookup:
  "getitem urls ''get_public_key'' = Inr ''https://msgapi.threema.ch/pubkeys/{}''"
  "getitem urls ''get_id_by_phone'' = Inr ''https://msgapi.threema.ch/lookup/phone/{}''"
  "getitem urls ''get_id_by_phone_hash'' = Inr ''https://msgapi.threema.ch/lookup/phone_hash/{}''"
  "getitem urls ''get_id_by_email'' = Inr ''https://msgapi.threema.ch/lookup/email/{}''"
  "getitem urls ''get_id_by_email_hash'' = Inr ''https://msgapi.threema.ch/lookup/email_hash/{}''"
  "getitem urls ''get_reception_capabilities'' = Inr ''https://msgapi.threema.ch/capabilities/{}''"
  "getitem urls ''get_credits'' = Inr ''https://msgapi.threema.ch/credits''"
  "getitem urls ''send_simple'' = Inr ''https://msgapi.threema.ch/send_simple''"
  "getitem urls ''send_e2e'' = Inr ''https://msgapi.threema.ch/send_e2e''"
  "getitem urls ''upload_blob'' = Inr ''https://msgapi.threema.ch/upload_blob''"
  "getitem urls ''download_blob'' = Inr ''https://msgapi.threema.ch/blobs/{}''"
  by (simp_all add: getitem_def urls_def)

lemma format_urls:
  "format_str ''https://msgapi.threema.ch/pubkeys/{}'' a = ''https://msgapi.threema.ch/pubkeys/'' @ a"
  "format_str ''https://msgapi.threema.ch/lookup/phone/{}'' a = ''https://msgapi.threema.ch/lookup/phone/'' @ a"
  "format_str ''https://msgapi.threema.ch/lookup/phone_hash/{}'' a = ''https://msgapi.threema.ch/lookup/phone_hash/'' @ a"
  "format_str ''https://msgapi.threema.ch/lookup/email/{}'' a = ''https://msgapi.threema.ch/lookup/email/'' @ a"
  "format_str ''https://msgapi.threema.ch/lookup/email_hash/{}'' a = ''https://msgapi.threema.ch/lookup/email_hash/'' @ a"
  "format_str ''https://msgapi.threema.ch/capabilities/{}'' a = ''https://msgapi.threema.ch/capabilities/'' @ a"
  "format_str ''https://msgapi.threema.ch/blobs/{}'' a = ''https://msgapi.threema.ch/blobs/'' @ a"
  by simp_all

text \<open>Each endpoint, by the answer of the server to its one request.\<close>

lemma get_public_key_run:
  "get_public_key tr public_key self ident =
     (let s = conn_session self;
          rq = get_request self (''https://msgapi.threema.ch/pubkeys/'' @ ident)
      in case tr s rq of
           Inl e \<Rightarrow> (Inl e, [Request s rq])
         | Inr r \<Rightarrow>
             if status r = 200 then (public_key (body_text r), [Request s rq, ReadText])
             else (Inl (GatewayServerError KeyServerError (status r)), [Request s rq, Release]))"
  unfolding get_public_key_def urls_lookup bind_pure_Inr format_urls get_then
  by (simp add: bind_io_def read_text_def pure_io_def raise_server_error_def split: sum.splits)

lemma get_credits_run:
  "get_credits tr py_int self =
     (let s = conn_session self;
          rq = get_request self ''https://msgapi.threema.ch/credits''
      in case tr s rq of
           Inl e \<Rightarrow> (Inl e, [Request s rq])
         | Inr r \<Rightarrow>
             if status r = 200 then (py_int (body_text r), [Request s rq, ReadText])
             else (Inl (GatewayServerError CreditsServerError (status r)), [Request s rq, Release]))"
  unfolding get_credits_def urls_lookup bind_pure_Inr get_then
  by (simp add: bind_io_def read_text_def pure_io_def raise_server_error_def split: sum.splits)

lemma download_run:
  "download tr self ident =
     (let s = conn_session self;
          rq = get_request self (''https://msgapi.threema.ch/blobs/'' @ ident)
      in case tr s rq of
           Inl e \<Rightarrow> (Inl e, [Request s rq])
         | Inr r \<Rightarrow>
             if status r = 200 then (Inr r, [Request s rq])
             else (Inl (GatewayServerError BlobServerError (status r)), [Request s rq, Release]))"
  unfolding download_def urls_lookup bind_pure_Inr format_urls get_then
  by (simp add: pure_io_def raise_server_error_def split: sum.splits)

lemma get_reception_capabilities_run:
  "get_reception_capabilities tr self ident =
     (let s = conn_session self;
          rq = get_request self (''https://msgapi.threema.ch/capabilities/'' @ ident)
      in case tr s rq of
           Inl e \<Rightarrow> (Inl e, [Request s rq])
         | Inr r \<Rightarrow>
             if status r = 200 then
               (case capabilities (split_str (body_text r) CHR '','') of
                  Inl ValueError \<Rightarrow>
                    (Inl (ReceptionCapabilitiesError ''Invalid reception capability''),
                     [Request s rq, ReadText, Release])
                | other \<Rightarrow> (other, [Request s rq, ReadText]))
             else (Inl (GatewayServerError ReceptionCapabilitiesServerError (status r)),
                   [Request s rq, Release]))"
  unfolding get_reception_capabilities_def urls_lookup bind_pure_Inr format_urls get_then
  by (simp add: bind_io_def read_text_def pure_io_def raise_server_error_def release_def
        split: sum.splits error.splits)

lemma get_id_run:
  assumes "map_of modes m = Some name" and "getitem urls name = Inr template"
  shows "get_id tr self [(m, v)] =
     (let s = conn_session self;
          rq = get_request self (format_str template v)
      in case tr s rq of
           Inl e \<Rightarrow> (Inl e, [Request s rq])
         | Inr r \<Rightarrow>
             if status r = 200 then (Inr (body_text r), [Request s rq, ReadText])
             else (Inl (GatewayServerError IDServerError (status r)), [Request s rq, Release]))"
proof -
  from assms(1) have "m \<in> set (map fst modes)"
    by (metis map_of_eq_None_iff option.distinct(1) set_map)
  then have "get_id tr self [(m, v)] =
      bind_io (priv_get tr self (format_str template v) []) (\<lambda>response.
          if status response = 200 then read_text response
          else raise_server_error response IDServerError)"
    using assms by (simp add: get_id_def popitem_def bind_pure_Inr getitem_def)
  then show ?thesis
    unfolding get_then
    by (simp add: read_text_def raise_server_error_def split: sum.splits)
qed

lemma priv_send_run:
  "priv_send tr self u data =
     (let s = conn_session self;
          rq = \<lparr>http_method = POST, url = u,
                kwargs = [(''data'', Dict (setdefault (setdefault data ''from'' (conn_id self))
                                             ''secret'' (conn_secret self)))]\<rparr>
      in case tr s rq of
           Inl e \<Rightarrow> (Inl e, [Request s rq])
         | Inr r \<Rightarrow>
             if status r = 200 then (Inr (body_text r), [Request s rq, ReadText])
             else (Inl (GatewayServerError MessageServerError (status r)), [Request s rq, Release]))"
  by (simp add: priv_send_def session_post_def bind_io_def read_text_def raise_server_error_def
        Let_def split: sum.splits)

lemma send_simple_run:
  "send_simple tr self data = priv_send tr self ''https://msgapi.threema.ch/send_simple'' data"
  unfolding send_simple_def urls_lookup bind_pure_Inr by (rule refl)

lemma send_e2e_run:
  "send_e2e tr self data = priv_send tr self ''https://msgapi.threema.ch/send_e2e'' data"
  unfolding send_e2e_def urls_lookup bind_pure_Inr by (rule refl)

lemma upload_run:
  "upload tr self data =
     (let s = conn_session self;
          rq = \<lparr>http_method = POST, url = ''https://msgapi.threema.ch/upload_blob'',
                kwargs = [(''params'', Dict [(''from'', conn_id self), (''secret'', conn_secret self)]),
                          (''data'', Dict [(''blob'', Bytes data)])]\<rparr>
      in case tr s rq of
           Inl e \<Rightarrow> (Inl e, [Request s rq])
         | Inr r \<Rightarrow>
             if status r = 200 then (Inr (body_text r), [Request s rq, ReadText])
             else (Inl (GatewayServerError BlobServerError (status r)), [Request s rq, Release]))"
  unfolding upload_def urls_lookup bind_pure_Inr
  by (simp add: priv_upload_def session_post_def bind_io_def read_text_def raise_server_error_def
        Let_def split: sum.splits)

subsection \<open>Credentials\<close>

lemma map_of_setdefault:
  "map_of (setdefault d k v) k' =
     (if k' = k then (case map_of d k of None \<Rightarrow> Some v | Some w \<Rightarrow> Some w) else map_of d k')"
  by (auto simp: setdefault_def map_add_def split: option.splits)

lemma setdefault_twice:
  "default_if_absent self p
     (setdefault (setdefault p ''from'' (conn_id self)) ''secret'' (conn_secret self))"
  by (auto simp: map_of_setdefault split: option.splits)

lemma map_of_setitem: "map_of (setitem d k v) k = Some v"
  by (induction d) auto

lemma setdefault_present: "map_of d k = Some w \<Longrightarrow> setdefault d k v = d"
  by (simp add: setdefault_def)

lemma priv_get_params:
  assumes "map_of kw ''params'' = Some (Dict p)"
  shows "priv_get tr self u kw =
     (let rq = \<lparr>http_method = GET, url = u,
                 kwargs = setitem kw ''params''
                   (Dict (setdefault (setdefault p ''from'' (conn_id self))
                            ''secret'' (conn_secret self)))\<rparr>
      in (tr (conn_session self) rq, [Request (conn_session self) rq]))"
  using assms by (simp add: priv_get_def setdefault_present session_get_def Let_def)

lemma priv_get_no_params:
  assumes "map_of kw ''params'' = None"
  shows "priv_get tr self u kw =
     (let rq = \<lparr>http_method = GET, url = u,
                 kwargs = kw @ [(''params'', Dict [(''from'', conn_id self), (''secret'', conn_secret self)])]\<rparr>
      in (tr (conn_session self) rq, [Request (conn_session self) rq]))"
proof -
  have "setitem (kw @ [(''params'', Dict [])]) ''params'' v = kw @ [(''params'', v)]" for v
    using assms by (induction kw) (auto split: if_splits)
  then show ?thesis
    using assms by (simp add: priv_get_def setdefault_def session_get_def map_add_def Let_def)
qed

lemma priv_get_sends_defaults:
  "map_of kw ''params'' = None \<Longrightarrow>
     \<exists>rq q. snd (priv_get tr self u kw) = [Request (conn_session self) rq]
        \<and> http_method rq = GET \<and> url rq = u \<and> map_of (kwargs rq) ''params'' = Some (Dict q)
        \<and> default_if_absent self [] q"
  by (simp add: priv_get_no_params map_add_def Let_def)

lemma priv_get_keeps_params:
  "map_of kw ''params'' = Some (Dict p) \<Longrightarrow>
     \<exists>rq q. snd (priv_get tr self u kw) = [Request (conn_session self) rq]
        \<and> http_method rq = GET \<and> url rq = u \<and> map_of (kwargs rq) ''params'' = Some (Dict q)
        \<and> default_if_absent self p q"
  using setdefault_twice [where self = self and p = p]
  by (simp add: priv_get_params Let_def map_of_setitem)

lemma priv_send_keeps_data:
  "\<exists>rq q t. snd (priv_send tr self u data) = Request (conn_session self) rq # t
      \<and> http_method rq = POST \<and> url rq = u \<and> kwargs rq = [(''data'', Dict q)]
      \<and> default_if_absent self data q"
  using setdefault_twice [where self = self and p = data]
  by (simp add: priv_send_run Let_def split: sum.splits)

lemma modes_lookup:
  "m \<in> set (map fst modes) \<Longrightarrow>
     \<exists>name template. map_of modes m = Some name \<and> getitem urls name = Inr template"
  by (auto simp: modes_def urls_lookup)

lemma get_id_request:
  assumes "m \<in> set (map fst modes)"
  shows "\<exists>u t. snd (get_id tr self [(m, v)])
           = Request (conn_session self) (get_request self u) # t"
proof -
  from modes_lookup [OF assms] obtain name template
    where "map_of modes m = Some name" and "getitem urls name = Inr template" by blast
  then show ?thesis
    by (simp add: get_id_run Let_def split: sum.splits)
qed

text \<open>
  C1. \<open>_get\<close> called without \<open>params\<close> sends \<open>from\<close> and \<open>secret\<close> with the
  connection's id and secret; called with a dictionary \<open>params\<close> it sends that
  dictionary with \<open>from\<close> and \<open>secret\<close> added where the caller gave none, and every
  entry of the caller unchanged. \<open>_send\<close>, \<open>send_simple\<close> and \<open>send_e2e\<close> do the
  same with the POST data. The GET endpoints (public key, id lookup in each of its four
  modes, capabilities, credits, blob download) call \<open>_get\<close> without \<open>params\<close>, so
  their request carries exactly the connection's id and secret.
\<close>

theorem credentials_injected_by_default:
  "(map_of kw0 ''params'' = None \<longrightarrow>
      (\<exists>rq q. snd (priv_get tr self u kw0) = [Request (conn_session self) rq]
         \<and> http_method rq = GET \<and> url rq = u \<and> map_of (kwargs rq) ''params'' = Some (Dict q)
         \<and> default_if_absent self [] q))
   \<and> (map_of kw ''params'' = Some (Dict p) \<longrightarrow>
      (\<exists>rq q. snd (priv_get tr self u kw) = [Request (conn_session self) rq]
         \<and> http_method rq = GET \<and> url rq = u \<and> map_of (kwargs rq) ''params'' = Some (Dict q)
         \<and> default_if_absent self p q))
   \<and> (\<exists>rq q t. snd (priv_send tr self u data) = Request (conn_session self) rq # t
         \<and> http_method rq = POST \<and> url rq = u \<and> kwargs rq = [(''data'', Dict q)]
         \<and> default_if_absent self data q)
   \<and> (\<exists>rq q t. snd (send_simple tr self data) = Request (conn_session self) rq # t
         \<and> http_method rq = POST \<and> kwargs rq = [(''data'', Dict q)]
         \<and> default_if_absent self data q)
   \<and> (\<exists>rq q t. snd (send_e2e tr self data) = Request (conn_session self) rq # t
         \<and> http_method rq = POST \<and> kwargs rq = [(''data'', Dict q)]
         \<and> default_if_absent self data q)
   \<and> (\<exists>u t. snd (get_public_key tr public_key self ident)
         = Request (conn_session self) (get_request self u) # t)
   \<and> (m \<in> set (map fst modes) \<longrightarrow>
        (\<exists>u t. snd (get_id tr self [(m, v)])
           = Request (conn_session self) (get_request self u) # t))
   \<and> (\<exists>u t. snd (get_reception_capabilities tr self ident)
         = Request (conn_session self) (get_request self u) # t)
   \<and> (\<exists>u t. snd (get_credits tr py_int self)
         = Request (conn_session self) (get_request self u) # t)
   \<and> (\<exists>u t. snd (download tr self ident)
         = Request (conn_session self) (get_request self u) # t)"
proof (intro conjI impI)
  assume "map_of kw0 ''params'' = None"
  then show "\<exists>rq q. snd (priv_get tr self u kw0) = [Request (conn_session self) rq]
         \<and> http_method rq = GET \<and> url rq = u \<and> map_of (kwargs rq) ''params'' = Some (Dict q)
         \<and> default_if_absent self [] q"
    by (rule priv_get_sends_defaults)
next
  assume "map_of kw ''params'' = Some (Dict p)"
  then show "\<exists>rq q. snd (priv_get tr self u kw) = [Request (conn_session self) rq]
         \<and> http_method rq = GET \<and> url rq = u \<and> map_of (kwargs rq) ''params'' = Some (Dict q)
         \<and> default_if_absent self p q"
    by (rule priv_get_keeps_params)
next
  show "\<exists>rq q t. snd (priv_send tr self u data) = Request (conn_session self) rq # t
         \<and> http_method rq = POST \<and> url rq = u \<and> kwargs rq = [(''data'', Dict q)]
         \<and> default_if_absent self data q"
    by (rule priv_send_keeps_data)
next
  from priv_send_keeps_data [of tr self "''https://msgapi.threema.ch/send_simple''" data]
  show "\<exists>rq q t. snd (send_simple tr self data) = Request (conn_session self) rq # t
         \<and> http_method rq = POST \<and> kwargs rq = [(''data'', Dict q)]
         \<and> default_if_absent self data q"
    unfolding send_simple_run by blast
next
  from priv_send_keeps_data [of tr self "''https://msgapi.threema.ch/send_e2e''" data]
  show "\<exists>rq q t. snd (send_e2e tr self data) = Request (conn_session self) rq # t
         \<and> http_method rq = POST \<and> kwargs rq = [(''data'', Dict q)]
         \<and> default_if_absent self data q"
    unfolding send_e2e_run by blast
next
  show "\<exists>u t. snd (get_public_key tr public_key self ident)
         = Request (conn_session self) (get_request self u) # t"
    by (simp add: get_public_key_run Let_def split: sum.splits)
next
  assume "m \<in> set (map fst modes)"
  then show "\<exists>u t. snd (get_id tr self [(m, v)])
           = Request (conn_session self) (get_request self u) # t"
    by (rule get_id_request)
next
  show "\<exists>u t. snd (get_reception_capabilities tr self ident)
         = Request (conn_session self) (get_request self u) # t"
    by (simp add: get_reception_capabilities_run Let_def split: sum.splits error.splits)
next
  show "\<exists>u t. snd (get_credits tr py_int self)
         = Request (conn_session self) (get_request self u) # t"
    by (simp add: get_credits_run Let_def split: sum.splits)
next
  show "\<exists>u t. snd (download tr self ident)
         = Request (conn_session self) (get_request self u) # t"
    by (simp add: download_run Let_def split: sum.splits)
qed

theorem credentials_injected_by_default_witness:
  "map_of ([] :: dict) ''params'' = None
   \<and> map_of [(''params'', Dict [(''from'', Str ''*OTHERID'')])] ''params''
       = Some (Dict [(''from'', Str ''*OTHERID'')])
   \<and> ''phone'' \<in> set (map fst modes)
   \<and> snd (priv_get (answer not_found) example_conn ''https://msgapi.threema.ch/credits'' [])
       = [Request (conn_session example_conn)
            \<lparr>http_method = GET, url = ''https://msgapi.threema.ch/credits'',
               kwargs = [(''params'', Dict [(''from'', Str ''*MYID123''), (''secret'', Str ''s3cret'')])]\<rparr>]
   \<and> snd (priv_get (answer not_found) example_conn ''https://msgapi.threema.ch/credits''
             [(''params'', Dict [(''from'', Str ''*OTHERID'')])])
       = [Request (conn_session example_conn)
            \<lparr>http_method = GET, url = ''https://msgapi.threema.ch/credits'',
               kwargs = [(''params'', Dict [(''from'', Str ''*OTHERID''), (''secret'', Str ''s3cret'')])]\<rparr>]
   \<and> snd (send_simple (answer not_found) example_conn
             [(''to'', Str ''ECHOECHO''), (''secret'', Str ''other'')])
       = [Request (conn_session example_conn)
            \<lparr>http_method = POST, url = ''https://msgapi.threema.ch/send_simple'',
               kwargs = [(''data'', Dict [(''to'', Str ''ECHOECHO''), (''secret'', Str ''other''),
                                          (''from'', Str ''*MYID123'')])]\<rparr>,
          Release]"
  using credentials_injected_by_default [of "[]" "answer not_found" example_conn
      "''https://msgapi.threema.ch/credits''" "[(''params'', Dict [(''from'', Str ''*OTHERID'')])]"
      "[(''from'', Str ''*OTHERID'')]" "[(''to'', Str ''ECHOECHO''), (''secret'', Str ''other'')]"
      "\<lambda>t. Inl ValueError" "''ECHOECHO''" "''phone''" "''41791234567''" "\<lambda>t. Inl ValueError"]
  by (simp add: priv_get_plain priv_get_params send_simple_run priv_send_run setdefault_def
        answer_def not_found_def example_conn_def modes_def Let_def)

subsection \<open>Identity lookup\<close>

text \<open>
  C2, the call without mode. \<open>get_id\<close> checks for unknown modes and for more than
  one mode only: a call without any mode passes both checks and fails in
  \<open>mode.popitem()\<close> with \<open>KeyError\<close>, not with the \<open>IDError\<close> of the other invalid
  calls. No request is sent.
\<close>

theorem get_id_without_mode_raises_KeyError:
  "get_id tr self [] = (Inl KeyError, [])"
  by (simp add: get_id_def popitem_def pure_io_def bind_io_def)

text \<open>Two or more modes, or a mode that is not known, are rejected with \<open>IDError\<close>
  before any request.\<close>

lemma get_id_rejects_many_or_unknown:
  assumes "length mode \<ge> 2 \<or> (\<exists>m \<in> set (map fst mode). m \<notin> set (map fst modes))"
  shows "\<exists>msg args. get_id tr self mode = (Inl (IDError msg args), [])"
proof (cases "\<exists>m \<in> set (map fst mode). m \<notin> set (map fst modes)")
  case True
  then have "filter (\<lambda>m. m \<notin> set (map fst modes)) (map fst mode) \<noteq> []"
    by (auto simp: filter_empty_conv)
  then have "length (remdups (filter (\<lambda>m. m \<notin> set (map fst modes)) (map fst mode))) > 0"
    by simp
  then show ?thesis by (simp add: get_id_def)
next
  case False
  with assms have "length mode > 1" by auto
  then show ?thesis by (simp add: get_id_def)
qed

section \<open>Server errors\<close>

text \<open>
  C4. When the server answers with a status other than 200, every endpoint releases
  the response and raises the error of its own family for that status: it returns
  neither the response nor any other value. (\<open>get_id\<close> sends a request only when it
  is called with one known mode.)
\<close>

theorem non_200_raises_family_error:
  assumes "\<forall>s rq. tr s rq = Inr r" and "status r \<noteq> 200"
  shows
    "(\<exists>rq. get_public_key tr public_key self ident
        = (Inl (GatewayServerError KeyServerError (status r)),
           [Request (conn_session self) rq, Release]))
     \<and> (m \<in> set (map fst modes) \<longrightarrow>
        (\<exists>rq. get_id tr self [(m, v)]
           = (Inl (GatewayServerError IDServerError (status r)),
              [Request (conn_session self) rq, Release])))
     \<and> (\<exists>rq. get_reception_capabilities tr self ident
        = (Inl (GatewayServerError ReceptionCapabilitiesServerError (status r)),
           [Request (conn_session self) rq, Release]))
     \<and> (\<exists>rq. get_credits tr py_int self
        = (Inl (GatewayServerError CreditsServerError (status r)),
           [Request (conn_session self) rq, Release]))
     \<and> (\<exists>rq. send_simple tr self data
        = (Inl (GatewayServerError MessageServerError (status r)),
           [Request (conn_session self) rq, Release]))
     \<and> (\<exists>rq. send_e2e tr self data
        = (Inl (GatewayServerError MessageServerError (status r)),
           [Request (conn_session self) rq, Release]))
     \<and> (\<exists>rq. upload tr self blob
        = (Inl (GatewayServerError BlobServerError (status r)),
           [Request (conn_session self) rq, Release]))
     \<and> (\<exists>rq. download tr self ident
        = (Inl (GatewayServerError BlobServerError (status r)),
           [Request (conn_session self) rq, Release]))"
proof (intro conjI impI)
  show "\<exists>rq. get_public_key tr public_key self ident
        = (Inl (GatewayServerError KeyServerError (status r)),
           [Request (conn_session self) rq, Release])"
    using assms by (simp add: get_public_key_run Let_def)
next
  assume "m \<in> set (map fst modes)"
  from modes_lookup [OF this] obtain name template
    where "map_of modes m = Some name" and "getitem urls name = Inr template" by blast
  then show "\<exists>rq. get_id tr self [(m, v)]
           = (Inl (GatewayServerError IDServerError (status r)),
              [Request (conn_session self) rq, Release])"
    using assms by (simp add: get_id_run Let_def)
next
  show "\<exists>rq. get_reception_capabilities tr self ident
        = (Inl (GatewayServerError ReceptionCapabilitiesServerError (status r)),
           [Request (conn_session self) rq, Release])"
    using assms by (simp add: get_reception_capabilities_run Let_def)
next
  show "\<exists>rq. get_credits tr py_int self
        = (Inl (GatewayServerError CreditsServerError (status r)),
           [Request (conn_session self) rq, Release])"
    using assms by (simp add: get_credits_run Let_def)
next
  show "\<exists>rq. send_simple tr self data
        = (Inl (GatewayServerError MessageServerError (status r)),
           [Request (conn_session self) rq, Release])"
    using assms by (simp add: send_simple_run priv_send_run Let_def)
next
  show "\<exists>rq. send_e2e tr self data
        = (Inl (GatewayServerError MessageServerError (status r)),
           [Request (conn_session self) rq, Release])"
    using assms by (simp add: send_e2e_run priv_send_run Let_def)
next
  show "\<exists>rq. upload tr self blob
        = (Inl (GatewayServerError BlobServerError (status r)),
           [Request (conn_session self) rq, Release])"
    using assms by (simp add: upload_run Let_def)
next
  show "\<exists>rq. download tr self ident
        = (Inl (GatewayServerError BlobServerError (status r)),
           [Request (conn_session self) rq, Release])"
    using assms by (simp add: download_run Let_def)
qed

theorem non_200_raises_family_error_witness:
  "(\<forall>s rq. answer not_found s rq = Inr not_found)
   \<and> status not_found \<noteq> 200
   \<and> ''email'' \<in> set (map fst modes)
   \<and> fst (get_credits (answer not_found) (\<lambda>t. Inl ValueError) example_conn)
       = Inl (GatewayServerError CreditsServerError 404)
   \<and> fst (get_id (answer not_found) example_conn [(''email'', ''a@example.org'')])
       = Inl (GatewayServerError IDServerError 404)
   \<and> fst (download (answer not_found) example_conn ''0123'')
       = Inl (GatewayServerError BlobServerError 404)"
proof -
  have h1: "\<forall>s rq. answer not_found s rq = Inr not_found" by (simp add: answer_def)
  have h2: "status not_found \<noteq> 200" by (simp add: not_found_def)
  have h3: "''email'' \<in> set (map fst modes)" by (simp add: modes_def)
  have s: "status not_found = 404" by (simp add: not_found_def)
  from non_200_raises_family_error [OF h1 h2, of "\<lambda>t. Inl ValueError" example_conn "''0123''"
      "''email''" "''a@example.org''" "\<lambda>t. Inl ValueError" "[]" "[]"] h3
  have "fst (get_credits (answer not_found) (\<lambda>t. Inl ValueError) example_conn)
          = Inl (GatewayServerError CreditsServerError 404)
      \<and> fst (get_id (answer not_found) example_conn [(''email'', ''a@example.org'')])
          = Inl (GatewayServerError IDServerError 404)
      \<and> fst (download (answer not_found) example_conn ''0123'')
          = Inl (GatewayServerError BlobServerError 404)"
    unfolding s by auto
  with h1 h2 h3 show ?thesis by blast
qed

section \<open>Reception capabilities\<close>

lemma split_no_sep: "sep \<notin> set w \<Longrightarrow> split_str w sep = [w]"
  by (induction w) auto

lemma split_before_sep:
  "sep \<notin> set w \<Longrightarrow> split_str (w @ sep # rest) sep = w # split_str rest sep"
  by (induction w) auto

lemma split_comma_separated:
  "ts \<noteq> [] \<Longrightarrow> \<forall>t \<in> set ts. CHR '','' \<notin> set t \<Longrightarrow>
     split_str (comma_separated ts) CHR '','' = ts"
proof (induction ts rule: comma_separated.induct)
  case 1
  then show ?case by simp
next
  case (2 t)
  then show ?case by (simp add: split_no_sep)
next
  case (3 t u us)
  then show ?case by (simp add: split_before_sep)
qed

text \<open>Every body is a list of tokens separated by commas, in one way: the tokens are
  what \<open>split\<close> returns.\<close>

lemma split_str_not_Nil: "split_str b sep \<noteq> []"
  by (induction b) (auto split: list.splits)

lemma split_str_tokens: "t \<in> set (split_str b sep) \<Longrightarrow> sep \<notin> set t"
  by (induction b arbitrary: t) (auto split: list.splits if_splits)

lemma comma_separated_split: "comma_separated (split_str b CHR '','') = b"
proof (induction b)
  case Nil
  then show ?case by simp
next
  case (Cons c cs)
  obtain w ws where s: "split_str cs CHR '','' = w # ws"
    using split_str_not_Nil [of cs "CHR '',''"] by (cases "split_str cs CHR '',''") auto
  with Cons show ?case by (cases ws) auto
qed

lemma body_is_comma_separated:
  "\<exists>ts. ts \<noteq> [] \<and> (\<forall>t \<in> set ts. CHR '','' \<notin> set t) \<and> b = comma_separated ts"
  using split_str_not_Nil [of b "CHR '',''"] split_str_tokens [of _ b "CHR '',''"]
    comma_separated_split [of b]
  by metis

lemma strip_cap_value: "strip (cap_value c) = cap_value c"
  by (cases c) (simp_all add: strip_def isspace_def)

lemma ReceptionCapability_of_value: "ReceptionCapability_of (cap_value c) = Inr c"
  by (cases c) (simp_all add: ReceptionCapability_of_def)

lemma ReceptionCapability_of_unrecognised:
  "\<forall>c. s \<noteq> cap_value c \<Longrightarrow> ReceptionCapability_of s = Inl ValueError"
proof -
  assume a: "\<forall>c. s \<noteq> cap_value c"
  have "s \<noteq> ''text''" "s \<noteq> ''image''" "s \<noteq> ''video''" "s \<noteq> ''audio''" "s \<noteq> ''file''"
    using a [rule_format, of cap_text] a [rule_format, of cap_image]
      a [rule_format, of cap_video] a [rule_format, of cap_audio] a [rule_format, of cap_file]
    by simp_all
  then show ?thesis by (simp add: ReceptionCapability_of_def)
qed

lemma ReceptionCapability_of_error: "ReceptionCapability_of s = Inl e \<Longrightarrow> e = ValueError"
  by (simp add: ReceptionCapability_of_def split: if_splits)

lemma capabilities_recognised:
  "map strip ts = map cap_value caps \<Longrightarrow> capabilities ts = Inr (set caps)"
proof (induction ts arbitrary: caps)
  case Nil
  then show ?case by simp
next
  case (Cons t ts)
  then obtain c cs where "caps = c # cs" and "strip t = cap_value c"
    and "map strip ts = map cap_value cs" by (cases caps) auto
  with Cons.IH [of cs] show ?case by (simp add: ReceptionCapability_of_value)
qed

lemma recognised_tokens:
  "\<forall>t \<in> set ts. \<exists>c. strip t = cap_value c \<Longrightarrow> \<exists>caps. map strip ts = map cap_value caps"
proof (induction ts)
  case Nil
  then show ?case by simp
next
  case (Cons t ts)
  then obtain c cs where "strip t = cap_value c" and "map strip ts = map cap_value cs"
    by auto
  then have "map strip (t # ts) = map cap_value (c # cs)" by simp
  then show ?case by blast
qed

lemma capabilities_unrecognised:
  "\<exists>t \<in> set ts. \<forall>c. strip t \<noteq> cap_value c \<Longrightarrow> capabilities ts = Inl ValueError"
proof (induction ts)
  case Nil
  then show ?case by simp
next
  case (Cons t ts)
  show ?case
  proof (cases "\<forall>c. strip t \<noteq> cap_value c")
    case True
    then show ?thesis by (simp add: ReceptionCapability_of_unrecognised)
  next
    case False
    with Cons.prems have "\<exists>t \<in> set ts. \<forall>c. strip t \<noteq> cap_value c" by auto
    with Cons.IH have "capabilities ts = Inl ValueError" by blast
    then show ?thesis
      by (auto split: sum.splits dest: ReceptionCapability_of_error)
  qed
qed

text \<open>
  C5. Take a 200 response whose body is the list of tokens \<open>ts\<close> separated by commas
  (every body is such a list, see \<open>body_is_comma_separated\<close>). A token is recognized
  when, stripped of the white space around it, it is the value of a capability. If
  every token is recognized, \<open>get_reception_capabilities\<close> reads the body and returns
  the set of the capabilities of the tokens, each once and in no order; in particular it
  returns \<open>set caps\<close> for the body made of the values of \<open>caps\<close>. If some token is
  not recognized, it reads the body, releases the response and raises
  \<open>ReceptionCapabilitiesError\<close>. One of the two cases always holds.
\<close>

theorem reception_capabilities_parsed_or_rejected:
  assumes "\<forall>s rq. tr s rq = Inr r" and "status r = 200"
    and "body_text r = comma_separated ts" and "ts \<noteq> []"
    and "\<forall>t \<in> set ts. CHR '','' \<notin> set t"
  shows
    "(map strip ts = map cap_value caps \<longrightarrow>
        get_reception_capabilities tr self ident
          = (Inr (set caps),
             [Request (conn_session self)
                (get_request self (''https://msgapi.threema.ch/capabilities/'' @ ident)),
              ReadText]))
     \<and> (ts = map cap_value caps \<longrightarrow>
        get_reception_capabilities tr self ident
          = (Inr (set caps),
             [Request (conn_session self)
                (get_request self (''https://msgapi.threema.ch/capabilities/'' @ ident)),
              ReadText]))
     \<and> ((\<forall>t \<in> set ts. \<exists>c. strip t = cap_value c) \<longrightarrow>
          (\<exists>caps'. map strip ts = map cap_value caps'))
     \<and> ((\<exists>t \<in> set ts. \<forall>c. strip t \<noteq> cap_value c) \<longrightarrow>
        get_reception_capabilities tr self ident
          = (Inl (ReceptionCapabilitiesError ''Invalid reception capability''),
             [Request (conn_session self)
                (get_request self (''https://msgapi.threema.ch/capabilities/'' @ ident)),
              ReadText, Release]))"
proof -
  have tokens: "split_str (body_text r) CHR '','' = ts"
    using assms(3-5) by (simp add: split_comma_separated)
  have parsed: "get_reception_capabilities tr self ident
          = (Inr (set cs),
             [Request (conn_session self)
                (get_request self (''https://msgapi.threema.ch/capabilities/'' @ ident)),
              ReadText])"
    if "map strip ts = map cap_value cs" for cs
    using assms(1,2) tokens capabilities_recognised [OF that]
    by (simp add: get_reception_capabilities_run Let_def)
  show ?thesis
  proof (intro conjI impI)
    assume "map strip ts = map cap_value caps"
    then show "get_reception_capabilities tr self ident
          = (Inr (set caps),
             [Request (conn_session self)
                (get_request self (''https://msgapi.threema.ch/capabilities/'' @ ident)),
              ReadText])"
      by (rule parsed)
  next
    assume "ts = map cap_value caps"
    then have "map strip ts = map cap_value caps" by (simp add: strip_cap_value)
    then show "get_reception_capabilities tr self ident
          = (Inr (set caps),
             [Request (conn_session self)
                (get_request self (''https://msgapi.threema.ch/capabilities/'' @ ident)),
              ReadText])"
      by (rule parsed)
  next
    assume "\<forall>t \<in> set ts. \<exists>c. strip t = cap_value c"
    then show "\<exists>caps'. map strip ts = map cap_value caps'" by (rule recognised_tokens)
  next
    assume "\<exists>t \<in> set ts. \<forall>c. strip t \<noteq> cap_value c"
    then have "capabilities ts = Inl ValueError" by (rule capabilities_unrecognised)
    with assms(1,2) tokens show "get_reception_capabilities tr self ident
          = (Inl (ReceptionCapabilitiesError ''Invalid reception capability''),
             [Request (conn_session self)
                (get_request self (''https://msgapi.threema.ch/capabilities/'' @ ident)),
              ReadText, Release])"
      by (simp add: get_reception_capabilities_run Let_def)
  qed
qed

theorem reception_capabilities_parsed_or_rejected_witness:
  "fst (get_reception_capabilities (answer capabilities_ok) example_conn ''ECHOECHO'')
     = Inr {cap_text, cap_image, cap_file}
   \<and> get_reception_capabilities (answer capabilities_padded) example_conn ''ECHOECHO''
     = (Inr {cap_text, cap_image},
        [Request (conn_session example_conn)
           (get_request example_conn ''https://msgapi.threema.ch/capabilities/ECHOECHO''),
         ReadText])
   \<and> get_reception_capabilities (answer capabilities_bogus) example_conn ''ECHOECHO''
     = (Inl (ReceptionCapabilitiesError ''Invalid reception capability''),
        [Request (conn_session example_conn)
           (get_request example_conn ''https://msgapi.threema.ch/capabilities/ECHOECHO''),
         ReadText, Release])"
proof -
  have ok: "\<forall>s rq. answer capabilities_ok s rq = Inr capabilities_ok"
    and padded: "\<forall>s rq. answer capabilities_padded s rq = Inr capabilities_padded"
    and bogus: "\<forall>s rq. answer capabilities_bogus s rq = Inr capabilities_bogus"
    by (simp_all add: answer_def)
  have s: "status capabilities_ok = 200" "status capabilities_padded = 200"
    "status capabilities_bogus = 200"
    by (simp_all add: capabilities_ok_def capabilities_padded_def capabilities_bogus_def)
  have b1: "body_text capabilities_ok = comma_separated [''text'', ''image'', ''file'']"
    and b2: "body_text capabilities_padded = comma_separated [''text'', '' image '', ''text'']"
    and b3: "body_text capabilities_bogus = comma_separated [''text'', ''bogus'']"
    by (simp_all add: capabilities_ok_def capabilities_padded_def capabilities_bogus_def)
  have n: "[''text'', ''image'', ''file''] \<noteq> []" "[''text'', '' image '', ''text''] \<noteq> []"
    "[''text'', ''bogus''] \<noteq> []"
    by simp_all
  have c1: "\<forall>t \<in> set [''text'', ''image'', ''file'']. CHR '','' \<notin> set t"
    and c2: "\<forall>t \<in> set [''text'', '' image '', ''text'']. CHR '','' \<notin> set t"
    and c3: "\<forall>t \<in> set [''text'', ''bogus'']. CHR '','' \<notin> set t"
    by simp_all
  have e1: "[''text'', ''image'', ''file''] = map cap_value [cap_text, cap_image, cap_file]"
    by simp
  have e2: "map strip [''text'', '' image '', ''text'']
      = map cap_value [cap_text, cap_image, cap_text]"
    by (simp add: strip_def isspace_def)
  have e3: "\<exists>t \<in> set [''text'', ''bogus'']. \<forall>c. strip t \<noteq> cap_value c"
  proof -
    have "strip ''bogus'' \<noteq> cap_value c" for c
      by (cases c) (simp_all add: strip_def isspace_def)
    then show ?thesis by simp
  qed
  from reception_capabilities_parsed_or_rejected [OF ok s(1) b1 n(1) c1,
      THEN conjunct2, THEN conjunct1, THEN mp, OF e1, of example_conn "''ECHOECHO''"]
  have r1: "fst (get_reception_capabilities (answer capabilities_ok) example_conn ''ECHOECHO'')
     = Inr {cap_text, cap_image, cap_file}"
    by simp
  from reception_capabilities_parsed_or_rejected [OF padded s(2) b2 n(2) c2,
      THEN conjunct1, THEN mp, OF e2, of example_conn "''ECHOECHO''"]
  have r2: "get_reception_capabilities (answer capabilities_padded) example_conn ''ECHOECHO''
     = (Inr {cap_text, cap_image},
        [Request (conn_session example_conn)
           (get_request example_conn ''https://msgapi.threema.ch/capabilities/ECHOECHO''),
         ReadText])"
    by (simp add: insert_commute)
  from reception_capabilities_parsed_or_rejected [OF bogus s(3) b3 n(3) c3,
      THEN conjunct2, THEN conjunct2, THEN conjunct2, THEN mp, OF e3,
      of example_conn "''ECHOECHO''"]
  have r3: "get_reception_capabilities (answer capabilities_bogus) example_conn ''ECHOECHO''
     = (Inl (ReceptionCapabilitiesError ''Invalid reception capability''),
        [Request (conn_session example_conn)
           (get_request example_conn ''https://msgapi.threema.ch/capabilities/ECHOECHO''),
         ReadText, Release])"
    by simp
  from r1 r2 r3 show ?thesis by simp
qed

section \<open>Blob upload\<close>

text \<open>
  C7. \<open>upload\<close> sends one POST request to the upload URL, with \<open>from\<close> and
  \<open>secret\<close> in \<open>params\<close> (the query) and with \<open>data\<close> holding the one field
  \<open>blob\<close> with the bytes (aiohttp encodes such a field as multipart form data); on a
  200 response it returns the text of the body.
\<close>

theorem upload_request_and_result:
  "(\<exists>t. snd (upload tr self blob)
       = Request (conn_session self)
           \<lparr>http_method = POST, url = ''https://msgapi.threema.ch/upload_blob'',
              kwargs = [(''params'', Dict [(''from'', conn_id self), (''secret'', conn_secret self)]),
                        (''data'', Dict [(''blob'', Bytes blob)])]\<rparr> # t)
   \<and> ((\<forall>s rq. tr s rq = Inr r) \<and> status r = 200 \<longrightarrow>
        fst (upload tr self blob) = Inr (body_text r))"
  by (simp add: upload_run Let_def split: sum.splits)

theorem upload_request_and_result_witness:
  "(\<forall>s rq. answer blob_stored s rq = Inr blob_stored)
   \<and> status blob_stored = 200
   \<and> upload (answer blob_stored) example_conn [0x89, 0x50, 0x4E, 0x47]
     = (Inr ''0123456789abcdef'',
        [Request (conn_session example_conn)
           \<lparr>http_method = POST, url = ''https://msgapi.threema.ch/upload_blob'',
              kwargs = [(''params'', Dict [(''from'', Str ''*MYID123''), (''secret'', Str ''s3cret'')]),
                        (''data'', Dict [(''blob'', Bytes [0x89, 0x50, 0x4E, 0x47])])]\<rparr>,
         ReadText])"
proof -
  have h: "(\<forall>s rq. answer blob_stored s rq = Inr blob_stored) \<and> status blob_stored = 200"
    by (simp add: answer_def blob_stored_def)
  from upload_request_and_result [of "answer blob_stored" example_conn "[0x89, 0x50, 0x4E, 0x47]"
      blob_stored, THEN conjunct2, THEN mp, OF h]
  have "fst (upload (answer blob_stored) example_conn [0x89, 0x50, 0x4E, 0x47])
          = Inr ''0123456789abcdef''"
    by (simp add: blob_stored_def)
  moreover have "snd (upload (answer blob_stored) example_conn [0x89, 0x50, 0x4E, 0x47])
     = [Request (conn_session example_conn)
           \<lparr>http_method = POST, url = ''https://msgapi.threema.ch/upload_blob'',
              kwargs = [(''params'', Dict [(''from'', Str ''*MYID123''), (''secret'', Str ''s3cret'')]),
                        (''data'', Dict [(''blob'', Bytes [0x89, 0x50, 0x4E, 0x47])])]\<rparr>,
         ReadText]"
    by (simp add: upload_run answer_def blob_stored_def example_conn_def Let_def)
  ultimately show ?thesis using h by (simp add: prod_eq_iff)
qed

section \<open>The fallback fingerprint\<close>

lemma requests_use_the_session:
  "Request s rq \<in> set (snd (get_public_key tr public_key self ident)) \<Longrightarrow> s = conn_session self"
  "Request s rq \<in> set (snd (get_reception_capabilities tr self ident)) \<Longrightarrow> s = conn_session self"
  "Request s rq \<in> set (snd (get_credits tr py_int self)) \<Longrightarrow> s = conn_session self"
  "Request s rq \<in> set (snd (send_simple tr self data)) \<Longrightarrow> s = conn_session self"
  "Request s rq \<in> set (snd (send_e2e tr self data)) \<Longrightarrow> s = conn_session self"
  "Request s rq \<in> set (snd (upload tr self blob)) \<Longrightarrow> s = conn_session self"
  "Request s rq \<in> set (snd (download tr self ident)) \<Longrightarrow> s = conn_session self"
  by (auto simp: get_public_key_run get_reception_capabilities_run get_credits_run
        send_simple_run send_e2e_run priv_send_run upload_run download_run Let_def
        split: sum.splits if_splits error.splits)

lemma get_id_uses_the_session:
  "Request s rq \<in> set (snd (get_id tr self mode)) \<Longrightarrow> s = conn_session self"
  by (auto simp: get_id_def bind_io_def pure_io_def popitem_def getitem_def priv_get_plain
        read_text_def raise_server_error_def
        split: if_splits sum.splits prod.splits option.splits)

text \<open>
  C8. A connection constructed with \<open>verify_fingerprint\<close> and without a fingerprint
  has a session whose connector was built with the built-in fingerprint, which has 16
  bytes. The constructor builds this session before anything else, and every request
  of every endpoint goes through it.
\<close>

theorem fallback_fingerprint_pinned_at_construction:
  assumes "init decode fs ident secret key key_file None True = Inr c"
  shows "connector_fingerprint (connector (conn_session c)) = Some fingerprint
     \<and> length fingerprint = 16
     \<and> (\<forall>s rq. Request s rq \<in> set (snd (get_public_key tr public_key c i))
            \<or> Request s rq \<in> set (snd (get_id tr c mode))
            \<or> Request s rq \<in> set (snd (get_reception_capabilities tr c i))
            \<or> Request s rq \<in> set (snd (get_credits tr py_int c))
            \<or> Request s rq \<in> set (snd (send_simple tr c data))
            \<or> Request s rq \<in> set (snd (send_e2e tr c data))
            \<or> Request s rq \<in> set (snd (upload tr c blob))
            \<or> Request s rq \<in> set (snd (download tr c i))
          \<longrightarrow> connector_fingerprint (connector s) = Some fingerprint)"
proof (intro conjI allI impI)
  from init_session [OF assms]
  show pinned: "connector_fingerprint (connector (conn_session c)) = Some fingerprint" by simp
  show "length fingerprint = 16" by (simp add: fingerprint_def)
  fix s rq
  assume "Request s rq \<in> set (snd (get_public_key tr public_key c i))
            \<or> Request s rq \<in> set (snd (get_id tr c mode))
            \<or> Request s rq \<in> set (snd (get_reception_capabilities tr c i))
            \<or> Request s rq \<in> set (snd (get_credits tr py_int c))
            \<or> Request s rq \<in> set (snd (send_simple tr c data))
            \<or> Request s rq \<in> set (snd (send_e2e tr c data))
            \<or> Request s rq \<in> set (snd (upload tr c blob))
            \<or> Request s rq \<in> set (snd (download tr c i))"
  then have "s = conn_session c"
    by (elim disjE) (erule requests_use_the_session get_id_uses_the_session)+
  with pinned show "connector_fingerprint (connector s) = Some fingerprint" by simp
qed

theorem fallback_fingerprint_pinned_at_construction_witness:
  "init example_decode example_fs (Str ''*MYID123'') (Str ''s3cret'') (KeyObj 7) None None True
     = Inr (example_conn\<lparr>conn_session := \<lparr>connector = \<lparr>connector_fingerprint = Some fingerprint\<rparr>\<rparr>\<rparr>)
   \<and> connector_fingerprint (connector (conn_session
        (example_conn\<lparr>conn_session := \<lparr>connector = \<lparr>connector_fingerprint = Some fingerprint\<rparr>\<rparr>\<rparr>)))
     = Some [0x6D, 0x7F, 0xA3, 0x1D, 0x80, 0xDC, 0x56, 0xF9, 0xC1, 0xED, 0x17, 0x98, 0x2A, 0xD6, 0x01, 0x7F]"
proof -
  let ?c = "example_conn\<lparr>conn_session := \<lparr>connector = \<lparr>connector_fingerprint = Some fingerprint\<rparr>\<rparr>\<rparr>"
  have i: "init example_decode example_fs (Str ''*MYID123'') (Str ''s3cret'') (KeyObj 7) None None True
     = Inr ?c"
    by (simp add: init_run new_TCPConnector_fallback set_key_def set_key_file_def
          example_conn_def)
  from fallback_fingerprint_pinned_at_construction [OF i]
  have "connector_fingerprint (connector (conn_session ?c)) = Some fingerprint" by blast
  with i show ?thesis by (simp add: fingerprint_def)
qed

end
